theory Spec2Isabelle
  imports Main
begin

section \<open>Monkey-patch scanner and risk classifier\<close>

text \<open>
  A shallow embedding of \<^verbatim>\<open>scan_monkey_patches.py\<close> (import resolver, scope tracker,
  pattern scanner, regex fallback, per-file scan, run loop, self test) and of
  \<^verbatim>\<open>monkey_patch_classify.py\<close> (the risk classifier).

  Python strings are modelled as \<^typ>\<open>string\<close> over ASCII text, Python ints as
  \<^typ>\<open>int\<close>, dicts as maps, exceptions as the left summand of a sum type.
  The result of the library call \<^verbatim>\<open>ast.parse\<close> is an input of the model: a source
  file carries its text lines together with its syntax tree, or no tree when parsing raises.
\<close>

subsection \<open>String helpers (Python \<^verbatim>\<open>str\<close> methods used by the scripts)\<close>

text \<open>\<^verbatim>\<open>str.isspace\<close> on ASCII: tab, LF, VT, FF, CR, the separators FS..US and space.\<close>

definition is_space :: "char \<Rightarrow> bool" where
  "is_space c = (c \<in> {CHR 0x09, CHR 0x0A, CHR 0x0B, CHR 0x0C, CHR 0x0D,
                       CHR 0x1C, CHR 0x1D, CHR 0x1E, CHR 0x1F, CHR 0x20})"

text \<open>The regex class \<^verbatim>\<open>\w\<close> on ASCII: letters, digits and the underscore.\<close>

definition is_alpha_us :: "char \<Rightarrow> bool" where
  "is_alpha_us c = (let n = of_char c :: nat in
     (65 \<le> n \<and> n \<le> 90) \<or> (97 \<le> n \<and> n \<le> 122) \<or> n = 95)"

definition is_word :: "char \<Rightarrow> bool" where
  "is_word c = (let n = of_char c :: nat in is_alpha_us c \<or> (48 \<le> n \<and> n \<le> 57))"

definition rstrip :: "string \<Rightarrow> string" where
  "rstrip s = rev (dropWhile is_space (rev s))"

definition strip :: "string \<Rightarrow> string" where
  "strip s = rstrip (dropWhile is_space s)"

text \<open>\<^verbatim>\<open>s.split(sep)\<close> for a one-character separator: never empty, \<^verbatim>\<open>"".split(".") == [""]\<close>.\<close>

fun split_on :: "char \<Rightarrow> string \<Rightarrow> string list" where
  "split_on sep [] = [[]]"
| "split_on sep (c # cs) =
     (if c = sep then [] # split_on sep cs
      else (case split_on sep cs of
              [] \<Rightarrow> [[c]]
            | w # ws \<Rightarrow> (c # w) # ws))"

text \<open>\<^verbatim>\<open>sep.join(parts)\<close>.\<close>

fun join :: "string \<Rightarrow> string list \<Rightarrow> string" where
  "join sep [] = []"
| "join sep [p] = p"
| "join sep (p # q # ps) = p @ sep @ join sep (q # ps)"

definition endswith :: "string \<Rightarrow> string \<Rightarrow> bool" where
  "endswith s suf = (length suf \<le> length s \<and> drop (length s - length suf) s = suf)"

subsection \<open>Syntax trees\<close>

text \<open>
  The node kinds of Python's \<^verbatim>\<open>ast\<close> that the visitors inspect, each with its
  \<^verbatim>\<open>lineno\<close>; every other node kind (\<^verbatim>\<open>Module\<close>, \<^verbatim>\<open>Expr\<close>, \<^verbatim>\<open>If\<close>,
  \<^verbatim>\<open>Lambda\<close>, constants, ...) is \<open>Other\<close> with its child nodes in field order.
  An import alias is the pair \<^verbatim>\<open>(name, asname)\<close>.
\<close>

datatype ast =
    Name int string
  | Attribute int ast string
  | Subscript int ast ast
  | Call int ast "ast list" "ast list"
  | Assign int "ast list" ast
  | AugAssign int ast ast
  | AnnAssign int ast ast "ast option"
  | Delete int "ast list"
  | FunctionDef int string "ast list" "ast list" "ast list" "ast list"
  | AsyncFunctionDef int string "ast list" "ast list" "ast list" "ast list"
  | ClassDef int string "ast list" "ast list" "ast list"
  | Import int "(string \<times> string option) list"
  | ImportFrom int "string option" "(string \<times> string option) list"
  | Other "ast list"

text \<open>
  Fields: \<open>Call lineno func args keywords\<close>; \<open>Assign lineno targets value\<close>;
  \<open>AugAssign lineno target value\<close>; \<open>AnnAssign lineno target annotation value\<close>;
  \<open>FunctionDef lineno name args body decorator_list returns\<close> (\<open>args\<close> holds the
  \<^verbatim>\<open>arguments\<close> node and \<open>returns\<close> the return annotation, if any);
  \<open>ClassDef lineno name bases body decorator_list\<close> (\<open>bases\<close> holds bases and keywords).
  Expression contexts, operators and import aliases, which are nodes without children and
  without a handler in any visitor, are not represented.
\<close>

text \<open>\<^verbatim>\<open>ast.iter_child_nodes\<close>: the child nodes in the order of \<^verbatim>\<open>_fields\<close>.\<close>

fun children :: "ast \<Rightarrow> ast list" where
  "children (Name l i) = []"
| "children (Attribute l v a) = [v]"
| "children (Subscript l v s) = [v, s]"
| "children (Call l f as ks) = f # as @ ks"
| "children (Assign l ts v) = ts @ [v]"
| "children (AugAssign l t v) = [t, v]"
| "children (AnnAssign l t a v) = [t, a] @ (case v of None \<Rightarrow> [] | Some e \<Rightarrow> [e])"
| "children (Delete l ts) = ts"
| "children (FunctionDef l n as b ds rs) = as @ b @ ds @ rs"
| "children (AsyncFunctionDef l n as b ds rs) = as @ b @ ds @ rs"
| "children (ClassDef l n bs b ds) = bs @ b @ ds"
| "children (Import l ns) = []"
| "children (ImportFrom l m ns) = []"
| "children (Other cs) = cs"

text \<open>\<^verbatim>\<open>getattr(node, "lineno", -1)\<close>.\<close>

fun lineno :: "ast \<Rightarrow> int" where
  "lineno (Name l i) = l"
| "lineno (Attribute l v a) = l"
| "lineno (Subscript l v s) = l"
| "lineno (Call l f as ks) = l"
| "lineno (Assign l ts v) = l"
| "lineno (AugAssign l t v) = l"
| "lineno (AnnAssign l t a v) = l"
| "lineno (Delete l ts) = l"
| "lineno (FunctionDef l n as b ds rs) = l"
| "lineno (AsyncFunctionDef l n as b ds rs) = l"
| "lineno (ClassDef l n bs b ds) = l"
| "lineno (Import l ns) = l"
| "lineno (ImportFrom l m ns) = l"
| "lineno (Other cs) = -1"

lemma children_size: "c \<in> set (children n) \<Longrightarrow> size c < size n"
  by (cases n) (auto dest: size_list_estimation' [where f = size and y = "size c"]
                     split: option.splits simp: less_Suc_eq_le)

subsection \<open>Import resolver\<close>

record resolver =
  alias_to_module :: "string \<rightharpoonup> string"
  alias_is_from_object :: "string \<rightharpoonup> (string \<times> string)"
  import_lines :: "int set"

definition new_resolver :: resolver where
  "new_resolver = \<lparr>alias_to_module = Map.empty, alias_is_from_object = Map.empty,
                    import_lines = {}\<rparr>"

text \<open>\<^verbatim>\<open>x or y\<close> on an optional string: \<open>None\<close> and the empty string are falsy.\<close>

definition or_else :: "string option \<Rightarrow> string \<Rightarrow> string" where
  "or_else a d = (case a of None \<Rightarrow> d | Some s \<Rightarrow> if s = [] then d else s)"

definition import_alias :: "resolver \<Rightarrow> string \<times> string option \<Rightarrow> resolver" where
  "import_alias r al =
     (let modname = fst al;
          asname = or_else (snd al) (last (split_on CHR ''.'' modname))
      in r\<lparr>alias_to_module := (alias_to_module r)(asname \<mapsto> modname)\<rparr>)"

definition visit_Import :: "int \<Rightarrow> (string \<times> string option) list \<Rightarrow> resolver \<Rightarrow> resolver" where
  "visit_Import l names r =
     foldl import_alias (r\<lparr>import_lines := insert l (import_lines r)\<rparr>) names"

definition import_from_alias :: "string \<Rightarrow> resolver \<Rightarrow> string \<times> string option \<Rightarrow> resolver" where
  "import_from_alias module r al =
     (let asname = or_else (snd al) (fst al)
      in r\<lparr>alias_to_module := (alias_to_module r)
              (asname \<mapsto> (if module \<noteq> [] then module @ ''.'' @ fst al else fst al)),
            alias_is_from_object := (alias_is_from_object r)(asname \<mapsto> (module, fst al))\<rparr>)"

definition visit_ImportFrom ::
  "int \<Rightarrow> string option \<Rightarrow> (string \<times> string option) list \<Rightarrow> resolver \<Rightarrow> resolver" where
  "visit_ImportFrom l m names r =
     foldl (import_from_alias (or_else m [])) (r\<lparr>import_lines := insert l (import_lines r)\<rparr>) names"

text \<open>\<^verbatim>\<open>ImportResolver.visit\<close>: the two import handlers, then the default traversal of all children.\<close>

function resolve :: "ast \<Rightarrow> resolver \<Rightarrow> resolver" where
  "resolve node r =
     fold resolve (children node)
       (case node of
          Import l names \<Rightarrow> visit_Import l names r
        | ImportFrom l m names \<Rightarrow> visit_ImportFrom l m names r
        | _ \<Rightarrow> r)"
  by pat_completeness auto
termination
  by (relation "measure (\<lambda>(n, r). size n)") (auto simp: children_size)

declare resolve.simps [simp del]

subsection \<open>Scope tracker\<close>

type_synonym scope_stack = "(string \<times> string) list"

text \<open>\<^verbatim>\<open>ScopeTracker.current\<close>: walks the stack from the top; the first entry of each kind wins.\<close>

definition current :: "scope_stack \<Rightarrow> bool \<times> string option \<times> string option" where
  "current stack =
     (let (fn, cl) = foldl (\<lambda>(fn, cl) (t, n).
                        (if t = ''function'' \<and> fn = None then Some n else fn,
                         if t = ''class'' \<and> cl = None then Some n else cl))
                      (None, None) (rev stack)
      in (stack = [], fn, cl))"

text \<open>The entry that the tracker's \<^verbatim>\<open>visit_FunctionDef\<close>, \<^verbatim>\<open>visit_AsyncFunctionDef\<close>
  and \<^verbatim>\<open>visit_ClassDef\<close> push; no other node kind has a handler.\<close>

fun scope_entry :: "ast \<Rightarrow> (string \<times> string) option" where
  "scope_entry (FunctionDef l n as b ds rs) = Some (''function'', n)"
| "scope_entry (AsyncFunctionDef l n as b ds rs) = Some (''function'', n)"
| "scope_entry (ClassDef l n bs b ds) = Some (''class'', n)"
| "scope_entry _ = None"

text \<open>\<^verbatim>\<open>ScopeTracker.visit\<close>: push, traverse the children with the tracker itself, pop
  (\<^verbatim>\<open>list.pop()\<close> removes the last element); other nodes are traversed only.\<close>

function scope_visit :: "ast \<Rightarrow> scope_stack \<Rightarrow> scope_stack" where
  "scope_visit node stack =
     (case scope_entry node of
        Some e \<Rightarrow> butlast (fold scope_visit (children node) (stack @ [e]))
      | None \<Rightarrow> fold scope_visit (children node) stack)"
  by pat_completeness auto
termination
  by (relation "measure (\<lambda>(n, s). size n)") (auto simp: children_size)

declare scope_visit.simps [simp del]

subsection \<open>Findings\<close>

definition DEFAULT_CONTEXT_LINES :: int where "DEFAULT_CONTEXT_LINES = 2"
definition KNOWN_SINGLETON_BASES :: "string set" where
  "KNOWN_SINGLETON_BASES = {''logging'', ''warnings''}"

definition CATEGORY_ATTRIBUTE_REASSIGNMENT :: string where
  "CATEGORY_ATTRIBUTE_REASSIGNMENT = ''attribute_reassignment_on_import''"
definition CATEGORY_SETATTR :: string where
  "CATEGORY_SETATTR = ''setattr_on_import_or_class''"
definition CATEGORY_SYS_MODULES :: string where
  "CATEGORY_SYS_MODULES = ''sys_modules_assignment''"
definition CATEGORY_BUILTINS :: string where
  "CATEGORY_BUILTINS = ''builtins_mutation''"
definition CATEGORY_IMPORT_TIME :: string where
  "CATEGORY_IMPORT_TIME = ''import_time_side_effect''"
definition CATEGORY_TEST_PATCH_MISUSE :: string where
  "CATEGORY_TEST_PATCH_MISUSE = ''test_patch_misuse''"
definition CATEGORY_GLOBAL_ENV :: string where
  "CATEGORY_GLOBAL_ENV = ''global_env_mutation''"
definition CATEGORY_SINGLETON_REBIND :: string where
  "CATEGORY_SINGLETON_REBIND = ''singleton_rebind''"

definition INTENT_MODULE_INJECTION :: string where
  "INTENT_MODULE_INJECTION = ''module injection/aliasing''"
definition INTENT_OVERRIDE_THIRD_PARTY :: string where
  "INTENT_OVERRIDE_THIRD_PARTY = ''override third-party behavior''"
definition INTENT_NON_SCOPED_TEST_PATCH :: string where
  "INTENT_NON_SCOPED_TEST_PATCH = ''non-scoped test patch''"
definition INTENT_GLOBAL_RUNTIME_CHANGE :: string where
  "INTENT_GLOBAL_RUNTIME_CHANGE = ''global runtime change''"
definition INTENT_IMPORT_TIME_OVERRIDE :: string where
  "INTENT_IMPORT_TIME_OVERRIDE = ''import-time behavior override''"
definition INTENT_UNSPECIFIED :: string where
  "INTENT_UNSPECIFIED = ''unspecified monkey patch''"

lemmas category_defs =
  CATEGORY_ATTRIBUTE_REASSIGNMENT_def CATEGORY_SETATTR_def CATEGORY_SYS_MODULES_def
  CATEGORY_BUILTINS_def CATEGORY_IMPORT_TIME_def CATEGORY_TEST_PATCH_MISUSE_def
  CATEGORY_GLOBAL_ENV_def CATEGORY_SINGLETON_REBIND_def

lemmas intent_defs =
  INTENT_MODULE_INJECTION_def INTENT_OVERRIDE_THIRD_PARTY_def INTENT_NON_SCOPED_TEST_PATCH_def
  INTENT_GLOBAL_RUNTIME_CHANGE_def INTENT_IMPORT_TIME_OVERRIDE_def INTENT_UNSPECIFIED_def

text \<open>
  The \<^verbatim>\<open>Finding\<close> dataclass. The fields \<^verbatim>\<open>file\<close>, \<^verbatim>\<open>function\<close> and \<^verbatim>\<open>context\<close> are named
  \<open>file_name\<close>, \<open>function_name\<close> and \<open>context_text\<close>; the three blame fields, filled only by
  \<^verbatim>\<open>--with-git\<close> from the output of a subprocess, are left out.
\<close>

record finding =
  file_name :: string
  line :: int
  code :: string
  category :: string
  intent :: string
  import_base :: "string option"
  is_test :: bool
  is_module_scope :: bool
  function_name :: "string option"
  class_name :: "string option"
  nearby_comment :: "string option"
  context_text :: "string option"

text \<open>
  A source file as the scanner sees it: \<open>abs_path\<close> is \<^verbatim>\<open>str(file_path)\<close>,
  \<open>rel_parts\<close> the parts of \<^verbatim>\<open>file_path.relative_to(repo_root)\<close> (\<open>None\<close> when the
  file is not below the root), \<open>text_lines\<close> the result of \<^verbatim>\<open>read_lines\<close>, and
  \<open>parsed\<close> the tree \<^verbatim>\<open>ast.parse\<close> returns for the joined lines (\<open>None\<close> when it raises).
\<close>

record src_file =
  abs_path :: string
  rel_parts :: "string list option"
  text_lines :: "string list"
  parsed :: "ast option"

text \<open>Python slicing \<^verbatim>\<open>xs[a:b]\<close> with integer bounds: negative bounds count from the end.\<close>

definition py_slice :: "'a list \<Rightarrow> int \<Rightarrow> int \<Rightarrow> 'a list" where
  "py_slice xs a b =
     (let n = int (length xs);
          a' = (if a < 0 then max 0 (n + a) else min a n);
          b' = (if b < 0 then max 0 (n + b) else min b n)
      in take (nat (b' - a')) (drop (nat a') xs))"

text \<open>Decimal digits of a natural number, and \<^verbatim>\<open>f"{k:>5}"\<close>.\<close>

function decimal :: "nat \<Rightarrow> string" where
  "decimal n = (if n < 10 then [char_of (48 + n)] else decimal (n div 10) @ [char_of (48 + n mod 10)])"
  by pat_completeness auto
termination
  by (relation "measure id") auto

declare decimal.simps [simp del]

definition right5 :: "string \<Rightarrow> string" where
  "right5 s = replicate (5 - length s) CHR '' '' @ s"

definition get_context :: "string list \<Rightarrow> int \<Rightarrow> int \<Rightarrow> string" where
  "get_context lines ln n =
     (let i = max 1 (ln - n);
          j = min (int (length lines)) (ln + n);
          segment = py_slice lines (i - 1) j
      in join [CHR 0x0A]
           (map (\<lambda>k. right5 (decimal (k + 1)) @ '': '' @ segment ! k) [0..<length segment]))"

definition get_nearby_comment :: "string list \<Rightarrow> int \<Rightarrow> string option" where
  "get_nearby_comment lines ln =
     (let lookback = 5;
          start = max 0 (ln - 2 - lookback);
          window = py_slice lines start (max 0 (ln - 1));
          collected = takeWhile (\<lambda>s. (s \<noteq> [] \<and> hd s = CHR ''#'') \<or> s = []) (map strip (rev window));
          text = strip (join [CHR 0x0A] (rev collected))
      in if text = [] then None else Some text)"

definition is_path_in_tests :: "src_file \<Rightarrow> bool" where
  "is_path_in_tests sf = (case rel_parts sf of None \<Rightarrow> False | Some parts \<Rightarrow> ''tests'' \<in> set parts)"

text \<open>Truthiness of an optional string.\<close>

definition truthy :: "string option \<Rightarrow> bool" where
  "truthy a = (case a of None \<Rightarrow> False | Some s \<Rightarrow> s \<noteq> [])"

definition base_module_name :: "string option \<Rightarrow> string option" where
  "base_module_name m = (if \<not> truthy m then None else Some (hd (split_on CHR ''.'' (the m))))"

definition is_alias_external :: "string \<Rightarrow> resolver \<Rightarrow> string set \<Rightarrow> bool \<times> string option" where
  "is_alias_external alias r project_pkgs =
     (let m = alias_to_module r alias in
      if \<not> truthy m then (False, None)
      else (let base = base_module_name m
            in ((if truthy base then the base \<notin> project_pkgs else False), base)))"

definition classify_intent :: "string \<Rightarrow> string option \<Rightarrow> bool \<Rightarrow> string" where
  "classify_intent cat base test =
     (if cat = CATEGORY_SYS_MODULES then INTENT_MODULE_INJECTION
      else if cat = CATEGORY_BUILTINS then INTENT_GLOBAL_RUNTIME_CHANGE
      else if cat = CATEGORY_IMPORT_TIME then INTENT_IMPORT_TIME_OVERRIDE
      else if cat = CATEGORY_TEST_PATCH_MISUSE \<and> test then INTENT_NON_SCOPED_TEST_PATCH
      else if truthy base \<and> cat \<in> {CATEGORY_ATTRIBUTE_REASSIGNMENT, CATEGORY_SETATTR,
                                      CATEGORY_SINGLETON_REBIND}
        then INTENT_OVERRIDE_THIRD_PARTY
      else INTENT_UNSPECIFIED)"

text \<open>The \<^verbatim>\<open>Finding(...)\<close> construction shared by \<^verbatim>\<open>_add_finding\<close> (with
  \<open>n = DEFAULT_CONTEXT_LINES\<close>) and by the fallback loop of \<^verbatim>\<open>scan_file\<close> (with its
  \<^verbatim>\<open>context_lines\<close> argument).\<close>

definition make_finding ::
  "src_file \<Rightarrow> int \<Rightarrow> int \<Rightarrow> string \<Rightarrow> string option \<Rightarrow> bool \<Rightarrow> string option \<Rightarrow> string option
     \<Rightarrow> finding" where
  "make_finding sf n ln cat base mod_scope fn cl =
     (let lines = text_lines sf;
          code_line = (if 1 \<le> ln \<and> ln \<le> int (length lines) then rstrip (lines ! nat (ln - 1)) else []);
          test = is_path_in_tests sf
      in \<lparr>file_name = (case rel_parts sf of Some parts \<Rightarrow> join ''/'' parts | None \<Rightarrow> abs_path sf),
          line = ln, code = code_line, category = cat,
          intent = classify_intent cat base test,
          import_base = base, is_test = test, is_module_scope = mod_scope,
          function_name = fn, class_name = cl,
          nearby_comment = get_nearby_comment lines ln,
          context_text = Some (get_context lines ln n)\<rparr>)"

subsection \<open>Pattern scanner\<close>

text \<open>\<^verbatim>\<open>dotted_name_from_attribute\<close>: the loop collects the attribute names outside-in, then
  the base name; anything but a name at the bottom gives \<open>None\<close>.\<close>

fun dotted_loop :: "ast \<Rightarrow> string list \<Rightarrow> string option" where
  "dotted_loop (Attribute l v a) parts = dotted_loop v (parts @ [a])"
| "dotted_loop (Name l i) parts = Some (join ''.'' (rev (parts @ [i])))"
| "dotted_loop _ parts = None"

definition dotted_name_from_attribute :: "ast \<Rightarrow> string option" where
  "dotted_name_from_attribute attr = dotted_loop attr []"

fun is_Attribute :: "ast \<Rightarrow> bool" where
  "is_Attribute (Attribute l v a) = True"
| "is_Attribute _ = False"

text \<open>\<^verbatim>\<open>isinstance(t, ast.Subscript) and _is_sys_modules(t)\<close>, and the same for \<^verbatim>\<open>os.environ\<close>.\<close>

fun is_sys_modules :: "ast \<Rightarrow> bool" where
  "is_sys_modules (Subscript l (Attribute l1 (Name l2 i) a) s) = (i = ''sys'' \<and> a = ''modules'')"
| "is_sys_modules _ = False"

fun is_os_environ :: "ast \<Rightarrow> bool" where
  "is_os_environ (Subscript l (Attribute l1 (Name l2 i) a) s) = (i = ''os'' \<and> a = ''environ'')"
| "is_os_environ _ = False"

definition near_import :: "int \<Rightarrow> int set \<Rightarrow> int \<Rightarrow> bool" where
  "near_import ln lines window = (\<exists>li\<in>lines. \<bar>ln - li\<bar> \<le> window)"

definition is_patch_name :: "string \<Rightarrow> resolver \<Rightarrow> bool" where
  "is_patch_name name r =
     (let mapped = alias_to_module r name in
      if \<not> truthy mapped then name = ''patch''
      else endswith (the mapped) ''.patch'' \<or> the mapped = ''unittest.mock.patch'')"

definition dotted_endswith_patch :: "ast \<Rightarrow> bool" where
  "dotted_endswith_patch e =
     (case dotted_name_from_attribute e of None \<Rightarrow> False | Some d \<Rightarrow> endswith d ''.patch'')"

fun is_patch_call :: "ast \<Rightarrow> resolver \<Rightarrow> bool" where
  "is_patch_call (Call l (Name l1 i) as ks) r = is_patch_name i r"
| "is_patch_call (Call l (Attribute l1 v a) as ks) r = dotted_endswith_patch (Attribute l1 v a)"
| "is_patch_call _ r = False"

fun is_patch_decorator :: "ast \<Rightarrow> resolver \<Rightarrow> bool" where
  "is_patch_decorator (Call l f as ks) r = is_patch_call (Call l f as ks) r"
| "is_patch_decorator (Name l i) r = is_patch_name i r"
| "is_patch_decorator (Attribute l v a) r = dotted_endswith_patch (Attribute l v a)"
| "is_patch_decorator _ r = False"

text \<open>The \<^verbatim>\<open>MonkeyPatchScanner\<close> object: its constructor arguments, the scope tracker's
  stack and the findings collected so far.\<close>

record scanner =
  src :: src_file
  res :: resolver
  project_pkgs :: "string set"
  context_lines :: int
  scope :: scope_stack
  findings :: "finding list"

definition add_finding ::
  "int \<Rightarrow> string \<Rightarrow> string option \<Rightarrow> bool \<Rightarrow> string option \<Rightarrow> string option \<Rightarrow> scanner \<Rightarrow> scanner" where
  "add_finding ln cat base mod_scope fn cl sc =
     sc\<lparr>findings := findings sc @
           [make_finding (src sc) DEFAULT_CONTEXT_LINES ln cat base mod_scope fn cl]\<rparr>"

text \<open>The branches of the loop body of \<^verbatim>\<open>_handle_assignment\<close>, in the order of the source.
  Each of the next three functions gives the \<^verbatim>\<open>import_base\<close> of its branch when the
  branch adds a finding and \<^verbatim>\<open>continue\<close>s, and \<open>None\<close> when control falls through.\<close>

fun is_builtins_attr :: "ast \<Rightarrow> bool" where
  "is_builtins_attr (Attribute l (Name l1 i) a) = (i = ''builtins'')"
| "is_builtins_attr _ = False"

definition singleton_base :: "ast \<Rightarrow> string option" where
  "singleton_base t =
     (if is_Attribute t then
        (let dotted = dotted_name_from_attribute t in
         if truthy dotted then
           (let base = hd (split_on CHR ''.'' (the dotted)) in
            if base \<in> KNOWN_SINGLETON_BASES \<and> CHR ''.'' \<in> set (the dotted) then Some base else None)
         else None)
      else None)"

fun attr_base_alias :: "ast \<Rightarrow> string option" where
  "attr_base_alias (Attribute l (Name l1 i) a) = Some i"
| "attr_base_alias (Attribute l v a) =
     (let dotted = dotted_name_from_attribute (Attribute l v a) in
      if truthy dotted \<and> CHR ''.'' \<in> set (the dotted)
      then Some (hd (split_on CHR ''.'' (the dotted))) else None)"
| "attr_base_alias _ = None"

definition attr_import_base :: "ast \<Rightarrow> resolver \<Rightarrow> string set \<Rightarrow> string option" where
  "attr_import_base t r pkgs =
     (let base_alias = attr_base_alias t in
      if truthy base_alias then
        (let (external, base) = is_alias_external (the base_alias) r pkgs in
         if truthy base then base else None)
      else None)"

fun rebind_base :: "ast \<Rightarrow> resolver \<Rightarrow> string option" where
  "rebind_base (Name l i) r =
     (if alias_to_module r i \<noteq> None then
        (let base = base_module_name (alias_to_module r i) in
         if truthy base then base else None)
      else None)"
| "rebind_base _ r = None"

definition handle_target ::
  "int \<Rightarrow> bool \<Rightarrow> string option \<Rightarrow> string option \<Rightarrow> scanner \<Rightarrow> ast \<Rightarrow> scanner" where
  "handle_target ln mod_scope fn cl sc t =
     (if is_sys_modules t then add_finding ln CATEGORY_SYS_MODULES (Some ''sys'') mod_scope fn cl sc
      else if is_builtins_attr t
        then add_finding ln CATEGORY_BUILTINS (Some ''builtins'') mod_scope fn cl sc
      else if is_os_environ t then add_finding ln CATEGORY_GLOBAL_ENV (Some ''os'') mod_scope fn cl sc
      else (case singleton_base t of
              Some base \<Rightarrow> add_finding ln CATEGORY_SINGLETON_REBIND (Some base) mod_scope fn cl sc
            | None \<Rightarrow>
               (case attr_import_base t (res sc) (project_pkgs sc) of
                  Some base \<Rightarrow>
                    (let sc1 = add_finding ln CATEGORY_ATTRIBUTE_REASSIGNMENT (Some base)
                                 mod_scope fn cl sc
                     in if mod_scope \<and> near_import ln (import_lines (res sc)) 5
                        then add_finding ln CATEGORY_IMPORT_TIME (Some base) mod_scope fn cl sc1
                        else sc1)
                | None \<Rightarrow>
                   (case rebind_base t (res sc) of
                      Some base \<Rightarrow> add_finding ln CATEGORY_ATTRIBUTE_REASSIGNMENT (Some base)
                                     mod_scope fn cl sc
                    | None \<Rightarrow> sc))))"

fun assignment_targets :: "ast \<Rightarrow> ast list" where
  "assignment_targets (Assign l ts v) = ts"
| "assignment_targets (AnnAssign l t a v) = [t]"
| "assignment_targets (AugAssign l t v) = [t]"
| "assignment_targets _ = []"

definition handle_assignment :: "ast \<Rightarrow> int \<Rightarrow> scanner \<Rightarrow> scanner" where
  "handle_assignment node ln sc =
     (let (mod_scope, fn, cl) = current (scope sc)
      in foldl (handle_target ln mod_scope fn cl) sc (assignment_targets node))"

fun is_setattr_name :: "ast \<Rightarrow> bool" where
  "is_setattr_name (Name l i) = (i = ''setattr'')"
| "is_setattr_name _ = False"

fun setattr_base_alias :: "ast \<Rightarrow> string option" where
  "setattr_base_alias (Name l i) = Some i"
| "setattr_base_alias (Attribute l (Name l1 i) a) = Some i"
| "setattr_base_alias _ = None"

fun is_environ_update :: "ast \<Rightarrow> bool" where
  "is_environ_update (Attribute l (Attribute l1 (Name l2 i) a1) a) =
     (i = ''os'' \<and> a1 = ''environ'' \<and> a \<in> {''update'', ''setdefault''})"
| "is_environ_update _ = False"

fun visit_Call :: "ast \<Rightarrow> scanner \<Rightarrow> scanner" where
  "visit_Call (Call ln func args keywords) sc =
     (let (mod_scope, fn, cl) = current (scope sc);
          sc1 = (if is_setattr_name func \<and> args \<noteq> [] then
                   (let base_alias = setattr_base_alias (hd args);
                        (external, base) =
                           (if truthy base_alias
                            then is_alias_external (the base_alias) (res sc) (project_pkgs sc)
                            else (False, None))
                    in add_finding ln CATEGORY_SETATTR base mod_scope fn cl sc)
                 else sc);
          sc2 = (if is_Attribute func \<and> dotted_name_from_attribute func = Some ''builtins.setattr''
                 then add_finding ln CATEGORY_SETATTR (Some ''builtins'') mod_scope fn cl sc1
                 else sc1);
          sc3 = (if mod_scope \<and> is_patch_call (Call ln func args keywords) (res sc)
                 then add_finding ln CATEGORY_TEST_PATCH_MISUSE (Some ''unittest'') mod_scope fn cl sc2
                 else sc2)
      in if is_environ_update func
         then add_finding ln CATEGORY_GLOBAL_ENV (Some ''os'') mod_scope fn cl sc3
         else sc3)"
| "visit_Call _ sc = sc"

definition visit_Delete :: "int \<Rightarrow> ast list \<Rightarrow> scanner \<Rightarrow> scanner" where
  "visit_Delete ln targets sc =
     foldl (\<lambda>s t. if is_sys_modules t
                  then (let (mod_scope, fn, cl) = current (scope s)
                        in add_finding ln CATEGORY_SYS_MODULES (Some ''sys'') mod_scope fn cl s)
                  else s) sc targets"

text \<open>The decorator loop of \<^verbatim>\<open>visit_FunctionDef\<close> and \<^verbatim>\<open>visit_ClassDef\<close>; \<open>fn\<close> and
  \<open>cl\<close> are \<^verbatim>\<open>(node.name, None)\<close> for a function and \<^verbatim>\<open>(None, node.name)\<close> for a class.\<close>

definition visit_decorators ::
  "ast list \<Rightarrow> string option \<Rightarrow> string option \<Rightarrow> scanner \<Rightarrow> scanner" where
  "visit_decorators decorator_list fn cl sc =
     (if fst (current (scope sc)) then
        foldl (\<lambda>s dec. if is_patch_decorator dec (res sc)
                       then add_finding (lineno dec) CATEGORY_TEST_PATCH_MISUSE (Some ''unittest'')
                              True fn cl s
                       else s) sc decorator_list
      else sc)"

text \<open>The body of the \<^verbatim>\<open>visit_<Class>\<close> method that \<^verbatim>\<open>NodeVisitor.visit\<close> dispatches to,
  up to its final \<^verbatim>\<open>generic_visit\<close>; node kinds without a method have none.\<close>

fun visit_method :: "ast \<Rightarrow> scanner \<Rightarrow> scanner" where
  "visit_method (Assign l ts v) sc = handle_assignment (Assign l ts v) l sc"
| "visit_method (AnnAssign l t a v) sc = handle_assignment (AnnAssign l t a v) l sc"
| "visit_method (AugAssign l t v) sc = handle_assignment (AugAssign l t v) l sc"
| "visit_method (Call l f as ks) sc = visit_Call (Call l f as ks) sc"
| "visit_method (Delete l ts) sc = visit_Delete l ts sc"
| "visit_method (FunctionDef l n as b ds rs) sc = visit_decorators ds (Some n) None sc"
| "visit_method (ClassDef l n bs b ds) sc = visit_decorators ds None (Some n) sc"
| "visit_method _ sc = sc"

fun is_def :: "ast \<Rightarrow> bool" where
  "is_def (FunctionDef l n as b ds rs) = True"
| "is_def (AsyncFunctionDef l n as b ds rs) = True"
| "is_def (ClassDef l n bs b ds) = True"
| "is_def _ = False"

text \<open>\<^verbatim>\<open>MonkeyPatchScanner.visit\<close>: the method for the node kind, then the overridden
  \<^verbatim>\<open>generic_visit\<close>: a definition node is handed to the scope tracker's own \<^verbatim>\<open>visit\<close>
  and the scanner returns; any other node has its children visited by the scanner.\<close>

function visit :: "ast \<Rightarrow> scanner \<Rightarrow> scanner" where
  "visit node sc =
     (let sc' = visit_method node sc
      in if is_def node then sc'\<lparr>scope := scope_visit node (scope sc')\<rparr>
         else fold visit (children node) sc')"
  by pat_completeness auto
termination
  by (relation "measure (\<lambda>(n, s). size n)") (auto simp: children_size)

declare visit.simps [simp del]

definition tree_pass :: "src_file \<Rightarrow> string set \<Rightarrow> int \<Rightarrow> ast \<Rightarrow> finding list" where
  "tree_pass sf pkgs n tree =
     findings (visit tree \<lparr>src = sf, res = resolve tree new_resolver, project_pkgs = pkgs,
                            context_lines = n, scope = [], findings = []\<rparr>)"

subsection \<open>Regex fallback\<close>

text \<open>
  The four patterns are sequences of single-character classes, each taken once, zero or
  more times (\<^verbatim>\<open>*\<close>) or one or more times (\<^verbatim>\<open>+\<close>), three of them behind a leading
  \<^verbatim>\<open>\b\<close>. \<open>matches_at\<close> decides whether some way of matching the items consumes a prefix
  of the text, which is when a backtracking matcher succeeds at that position;
  \<^verbatim>\<open>rx.search\<close> tries every position.
\<close>

datatype cls = Ch char | NotCh char | SpaceCls | WordCls | AlphaUsCls

datatype item = One cls | Star cls | Plus cls

fun in_cls :: "cls \<Rightarrow> char \<Rightarrow> bool" where
  "in_cls (Ch c) x = (x = c)"
| "in_cls (NotCh c) x = (x \<noteq> c)"
| "in_cls SpaceCls x = is_space x"
| "in_cls WordCls x = is_word x"
| "in_cls AlphaUsCls x = is_alpha_us x"

fun matches_at :: "item list \<Rightarrow> string \<Rightarrow> bool" where
  "matches_at [] s = True"
| "matches_at (One c # r) [] = False"
| "matches_at (One c # r) (x # xs) = (if in_cls c x then matches_at r xs else False)"
| "matches_at (Star c # r) [] = matches_at r []"
| "matches_at (Star c # r) (x # xs) =
     (if matches_at r (x # xs) then True
      else if in_cls c x then matches_at (Star c # r) xs else False)"
| "matches_at (Plus c # r) [] = False"
| "matches_at (Plus c # r) (x # xs) = (if in_cls c x then matches_at (Star c # r) xs else False)"

text \<open>\<^verbatim>\<open>\b\<close>: exactly one of the characters before and after the position is a word character.\<close>

type_synonym regex = "bool \<times> item list"

definition word_boundary :: "char option \<Rightarrow> string \<Rightarrow> bool" where
  "word_boundary prev s =
     ((case prev of None \<Rightarrow> False | Some p \<Rightarrow> is_word p)
       \<noteq> (case s of [] \<Rightarrow> False | x # xs \<Rightarrow> is_word x))"

text \<open>A match at the current position needs the items to match there and, for a pattern
  with a leading \<^verbatim>\<open>\b\<close>, a word boundary there.\<close>

definition match_here :: "regex \<Rightarrow> char option \<Rightarrow> string \<Rightarrow> bool" where
  "match_here rx prev s =
     (if matches_at (snd rx) s then (fst rx \<longrightarrow> word_boundary prev s) else False)"

fun rx_search_from :: "regex \<Rightarrow> char option \<Rightarrow> string \<Rightarrow> bool" where
  "rx_search_from rx prev [] = match_here rx prev []"
| "rx_search_from rx prev (x # xs) =
     (if match_here rx prev (x # xs) then True else rx_search_from rx (Some x) xs)"

definition rx_search :: "regex \<Rightarrow> string \<Rightarrow> bool" where
  "rx_search rx s = rx_search_from rx None s"

definition lit :: "string \<Rightarrow> item list" where
  "lit s = map (\<lambda>c. One (Ch c)) s"

definition patterns :: "(regex \<times> string) list" where
  "patterns =
     [((False, lit ''sys.modules['' @ [Plus (NotCh CHR '']''), One (Ch CHR '']''), Star SpaceCls,
                                       One (Ch CHR ''=''), Star SpaceCls]),
       CATEGORY_SYS_MODULES),
      ((True, lit ''builtins.'' @ [One AlphaUsCls, Star WordCls, Star SpaceCls,
                                   One (Ch CHR ''=''), Star SpaceCls]),
       CATEGORY_BUILTINS),
      ((True, lit ''os.environ['' @ [Plus (NotCh CHR '']''), One (Ch CHR '']''), Star SpaceCls,
                                     One (Ch CHR ''=''), Star SpaceCls]),
       CATEGORY_GLOBAL_ENV),
      ((True, lit ''setattr'' @ [Star SpaceCls, One (Ch CHR ''('')]),
       CATEGORY_SETATTR)]"

text \<open>The loop over \<^verbatim>\<open>enumerate(lines, start=1)\<close>: the first pattern found in the stripped
  line gives the hit for that line.\<close>

fun regex_fallback_from :: "int \<Rightarrow> string list \<Rightarrow> (int \<times> string) list" where
  "regex_fallback_from i [] = []"
| "regex_fallback_from i (ln # lines) =
     (case find (\<lambda>(rx, cat). rx_search rx (strip ln)) patterns of
        Some (rx, cat) \<Rightarrow> [(i, cat)]
      | None \<Rightarrow> []) @ regex_fallback_from (i + 1) lines"

definition regex_fallback :: "string list \<Rightarrow> (int \<times> string) list" where
  "regex_fallback lines = regex_fallback_from 1 lines"

subsection \<open>Scanning one file\<close>

datatype exn = ParseError

datatype level = DEBUG | INFO | ERROR

datatype message =
    Failed_to_parse string
  | Parse_error_in string
  | Done_findings nat
  | Strict_mode_failed nat

type_synonym log = "(level \<times> message) list"

text \<open>The fallback loop of \<^verbatim>\<open>scan_file\<close>: \<^verbatim>\<open>seen\<close> is computed once from the tree-based
  findings; every hit outside it becomes a minimal finding.\<close>

definition fallback_findings :: "src_file \<Rightarrow> int \<Rightarrow> finding list \<Rightarrow> finding list" where
  "fallback_findings sf n fs =
     (let fallback_hits = regex_fallback (text_lines sf);
          seen = set (map (\<lambda>f. (line f, category f)) fs)
      in map (\<lambda>(ln, cat). make_finding sf n ln cat None True None None)
           (filter (\<lambda>h. h \<notin> seen) fallback_hits))"

text \<open>\<^verbatim>\<open>scan_file\<close> returns the records it logged and either the exception it raises or
  the list it returns.\<close>

definition scan_file ::
  "src_file \<Rightarrow> string set \<Rightarrow> int \<Rightarrow> bool \<Rightarrow> log \<times> (exn + finding list)" where
  "scan_file sf pkgs n strict =
     (case parsed sf of
        None \<Rightarrow> ([(DEBUG, Failed_to_parse (abs_path sf))],
                 if strict then Inl ParseError else Inr [])
      | Some tree \<Rightarrow>
          (let fs = tree_pass sf pkgs n tree
           in ([], Inr (if \<not> strict then fs @ fallback_findings sf n fs else fs))))"

subsection \<open>The run: scan loop and exit code of \<^verbatim>\<open>main\<close>\<close>

text \<open>
  \<open>files\<close> is the sequence \<^verbatim>\<open>iter_python_files\<close> yields and \<open>is_self\<close> the test
  \<^verbatim>\<open>Path(file).resolve() == Path(__file__).resolve()\<close>. The loop state is
  \<^verbatim>\<open>all_findings\<close>, \<^verbatim>\<open>parse_errors\<close> and the log.
\<close>

definition main_step ::
  "bool \<Rightarrow> string set \<Rightarrow> int \<Rightarrow> (string \<Rightarrow> bool) \<Rightarrow> finding list \<times> nat \<times> log \<Rightarrow> src_file
     \<Rightarrow> finding list \<times> nat \<times> log" where
  "main_step strict pkgs n is_self st sf =
     (case st of (all_findings, parse_errors, lg) \<Rightarrow>
        if is_self (abs_path sf) then st
        else (case scan_file sf pkgs n strict of
                (l, Inl e) \<Rightarrow>
                  (all_findings, parse_errors + 1, lg @ l @ [(ERROR, Parse_error_in (abs_path sf))])
              | (l, Inr fds) \<Rightarrow> (all_findings @ fds, parse_errors, lg @ l)))"

text \<open>\<open>written\<close> is the list handed to \<^verbatim>\<open>write_reports\<close>, which \<^verbatim>\<open>report.json\<close> and
  \<^verbatim>\<open>report.csv\<close> list in this order.\<close>

record run =
  written :: "finding list"
  exit_code :: int
  run_log :: log

definition main_scan ::
  "bool \<Rightarrow> string set \<Rightarrow> int \<Rightarrow> (string \<Rightarrow> bool) \<Rightarrow> src_file list \<Rightarrow> run" where
  "main_scan strict pkgs n is_self files =
     (case foldl (main_step strict pkgs n is_self) ([], 0, []) files of
        (all_findings, parse_errors, lg) \<Rightarrow>
          (let lg1 = lg @ [(INFO, Done_findings (length all_findings))]
           in if strict \<and> parse_errors \<noteq> 0
              then \<lparr>written = all_findings, exit_code = 1,
                    run_log = lg1 @ [(ERROR, Strict_mode_failed parse_errors)]\<rparr>
              else \<lparr>written = all_findings, exit_code = 0, run_log = lg1\<rparr>))"

subsection \<open>Self test\<close>

text \<open>The eight fixture files: the lines \<^verbatim>\<open>read_lines\<close> gives (each fixture text starts with
  a newline, so line 1 is empty) and the tree of each text.\<close>

definition fixture :: "string \<Rightarrow> string list \<Rightarrow> ast list \<Rightarrow> src_file" where
  "fixture name lines body =
     \<lparr>abs_path = ''/tmp/td/'' @ name, rel_parts = Some [name], text_lines = lines,
      parsed = Some (Other body)\<rparr>"

definition a_modscope_assign :: src_file where
  "a_modscope_assign = fixture ''a_modscope_assign.py''
     ['''', ''import requests'', ''requests.adapters.DEFAULT_POOLSIZE = 1  # change pool size'']
     [Import 2 [(''requests'', None)],
      Assign 3 [Attribute 3 (Attribute 3 (Name 3 ''requests'') ''adapters'') ''DEFAULT_POOLSIZE'']
        (Other [])]"

definition b_setattr :: src_file where
  "b_setattr = fixture ''b_setattr.py''
     ['''', ''import requests'', ''setattr(requests, \"api\", object())'']
     [Import 2 [(''requests'', None)],
      Other [Call 3 (Name 3 ''setattr'')
               [Name 3 ''requests'', Other [], Call 3 (Name 3 ''object'') [] []] []]]"

definition c_sysmodules :: src_file where
  "c_sysmodules = fixture ''c_sysmodules.py''
     ['''', ''import sys'', ''sys.modules[\"foo\"] = object()'']
     [Import 2 [(''sys'', None)],
      Assign 3 [Subscript 3 (Attribute 3 (Name 3 ''sys'') ''modules'') (Other [])]
        (Call 3 (Name 3 ''object'') [] [])]"

definition d_builtins :: src_file where
  "d_builtins = fixture ''d_builtins.py''
     ['''', ''import builtins'', ''builtins.open = lambda *a, **k: None'']
     [Import 2 [(''builtins'', None)],
      Assign 3 [Attribute 3 (Name 3 ''builtins'') ''open'']
        (Other [Other [Other [], Other []], Other []])]"

definition e_patch_misuse :: src_file where
  "e_patch_misuse = fixture ''e_patch_misuse.py''
     ['''', ''from unittest.mock import patch'', ''@patch(\"x.y.func\")'', ''def test_foo():'',
      ''    pass'', ''patch(\"x.y.func\")  # not context-managed'']
     [ImportFrom 2 (Some ''unittest.mock'') [(''patch'', None)],
      FunctionDef 4 ''test_foo'' [Other []] [Other []]
        [Call 3 (Name 3 ''patch'') [Other []] []] [],
      Other [Call 6 (Name 6 ''patch'') [Other []] []]]"

definition f_env_mut :: src_file where
  "f_env_mut = fixture ''f_env_mut.py''
     ['''', ''import os'', ''os.environ[\"SOME_KEY\"] = \"1\"'', ''os.environ.update({\"A\":\"b\"})'']
     [Import 2 [(''os'', None)],
      Assign 3 [Subscript 3 (Attribute 3 (Name 3 ''os'') ''environ'') (Other [])] (Other []),
      Other [Call 4 (Attribute 4 (Attribute 4 (Name 4 ''os'') ''environ'') ''update'')
               [Other [Other [], Other []]] []]]"

definition g_singleton_rebind :: src_file where
  "g_singleton_rebind = fixture ''g_singleton_rebind.py''
     ['''', ''import logging'', ''logging.getLogger = lambda name=None: None'']
     [Import 2 [(''logging'', None)],
      Assign 3 [Attribute 3 (Name 3 ''logging'') ''getLogger'']
        (Other [Other [Other [], Other []], Other []])]"

definition h_from_import_attr :: src_file where
  "h_from_import_attr = fixture ''h_from_import_attr.py''
     ['''', ''from somepkg import moduleX as mx'', ''mx.feature_flag = True'']
     [ImportFrom 2 (Some ''somepkg'') [(''moduleX'', Some ''mx'')],
      Assign 3 [Attribute 3 (Name 3 ''mx'') ''feature_flag''] (Other [])]"

definition sample_files :: "src_file list" where
  "sample_files = [a_modscope_assign, b_setattr, c_sysmodules, d_builtins, e_patch_misuse,
                   f_env_mut, g_singleton_rebind, h_from_import_attr]"

definition expected :: "string set" where
  "expected = {CATEGORY_ATTRIBUTE_REASSIGNMENT, CATEGORY_SETATTR, CATEGORY_SYS_MODULES,
               CATEGORY_BUILTINS, CATEGORY_TEST_PATCH_MISUSE, CATEGORY_GLOBAL_ENV,
               CATEGORY_SINGLETON_REBIND}"

text \<open>The scan loop of the self test has no handler: an exception of \<^verbatim>\<open>scan_file\<close>
  would leave \<^verbatim>\<open>run_self_test\<close>.\<close>

fun self_test_scan :: "src_file list \<Rightarrow> exn + finding list" where
  "self_test_scan [] = Inr []"
| "self_test_scan (sf # files) =
     (case snd (scan_file sf {} DEFAULT_CONTEXT_LINES False) of
        Inl e \<Rightarrow> Inl e
      | Inr fds \<Rightarrow> (case self_test_scan files of Inl e \<Rightarrow> Inl e | Inr rest \<Rightarrow> Inr (fds @ rest)))"

definition self_test_verdict :: "finding list \<Rightarrow> int" where
  "self_test_verdict fs =
     (let cats = set (map category fs); missing = expected - cats
      in if missing \<noteq> {} then 2 else 0)"

text \<open>\<open>files\<close> is the fixture set in the order \<^verbatim>\<open>iter_python_files\<close> yields it.\<close>

definition run_self_test_on :: "src_file list \<Rightarrow> exn + int" where
  "run_self_test_on files =
     (case self_test_scan files of Inl e \<Rightarrow> Inl e | Inr fs \<Rightarrow> Inr (self_test_verdict fs))"

definition run_self_test :: "exn + int" where
  "run_self_test = run_self_test_on sample_files"

subsection \<open>Risk classifier\<close>

text \<open>The \<^verbatim>\<open>Finding\<close> dataclass of \<^verbatim>\<open>monkey_patch_classify.py\<close>; its fields carry the
  prefix \<open>r_\<close> to keep them apart from the scanner's record.\<close>

record risk_finding =
  r_file :: string
  r_line :: int
  r_category :: string
  r_is_test :: bool
  r_is_module_scope :: bool
  r_import_base :: "string option"

definition classify :: "risk_finding \<Rightarrow> string" where
  "classify f =
     (if r_category f \<in> {''sys_modules_assignment'', ''import_time_side_effect''} \<and> \<not> r_is_test f
        then ''HIGH''
      else if r_category f = ''global_env_mutation'' \<and> \<not> r_is_test f \<and> r_is_module_scope f
        then ''HIGH''
      else if r_category f = ''attribute_reassignment_on_import'' \<and> \<not> r_is_test f
        then ''MODERATE''
      else if r_category f = ''global_env_mutation'' \<and> r_is_test f then ''MODERATE''
      else ''SAFE'')"

subsection \<open>Example files\<close>

text \<open>The list \<^verbatim>\<open>scan_file\<close> returns; empty when it raises.\<close>

definition scan_findings :: "src_file \<Rightarrow> string set \<Rightarrow> int \<Rightarrow> bool \<Rightarrow> finding list" where
  "scan_findings sf pkgs n strict =
     (case snd (scan_file sf pkgs n strict) of Inl e \<Rightarrow> [] | Inr fs \<Rightarrow> fs)"

text \<open>
  \<^verbatim>\<open>import sys\<close> / \<^verbatim>\<open>def install():\<close> / \<^verbatim>\<open>    sys.modules["foo"] = object()\<close>
\<close>

definition nested_sysmodules :: src_file where
  "nested_sysmodules =
     \<lparr>abs_path = ''/repo/pkg/nested.py'', rel_parts = Some [''pkg'', ''nested.py''],
      text_lines = [''import sys'', ''def install():'', ''    sys.modules[\"foo\"] = object()''],
      parsed = Some (Other
        [Import 1 [(''sys'', None)],
         FunctionDef 2 ''install'' [Other []]
           [Assign 3 [Subscript 3 (Attribute 3 (Name 3 ''sys'') ''modules'') (Other [])]
              (Call 3 (Name 3 ''object'') [] [])]
           [] []])\<rparr>"

text \<open>
  \<^verbatim>\<open>import sys\<close> / \<^verbatim>\<open>def install(names):\<close> / \<^verbatim>\<open>    sys.modules[names[0]] = object()\<close>
\<close>

definition nested_sysmodules_index :: src_file where
  "nested_sysmodules_index =
     \<lparr>abs_path = ''/repo/pkg/install.py'', rel_parts = Some [''pkg'', ''install.py''],
      text_lines = [''import sys'', ''def install(names):'',
                    ''    sys.modules[names[0]] = object()''],
      parsed = Some (Other
        [Import 1 [(''sys'', None)],
         FunctionDef 2 ''install'' [Other [Other []]]
           [Assign 3 [Subscript 3 (Attribute 3 (Name 3 ''sys'') ''modules'')
                        (Subscript 3 (Name 3 ''names'') (Other []))]
              (Call 3 (Name 3 ''object'') [] [])]
           [] []])\<rparr>"

text \<open>
  \<^verbatim>\<open>import os\<close> / \<^verbatim>\<open>def configure():\<close> / \<^verbatim>\<open>    os.environ.update({"A": "b"})\<close>
\<close>

definition nested_environ_update :: src_file where
  "nested_environ_update =
     \<lparr>abs_path = ''/repo/pkg/configure.py'', rel_parts = Some [''pkg'', ''configure.py''],
      text_lines = [''import os'', ''def configure():'',
                    ''    os.environ.update({\"A\": \"b\"})''],
      parsed = Some (Other
        [Import 1 [(''os'', None)],
         FunctionDef 2 ''configure'' [Other []]
           [Other [Call 3 (Attribute 3 (Attribute 3 (Name 3 ''os'') ''environ'') ''update'')
                     [Other [Other [], Other []]] []]]
           [] []])\<rparr>"

text \<open>
  \<^verbatim>\<open>import sys\<close> / \<^verbatim>\<open>sys.modules["a"] = sys.modules["b"] = None\<close>
\<close>

definition chained_tree :: ast where
  "chained_tree = Other
     [Import 1 [(''sys'', None)],
      Assign 2 [Subscript 2 (Attribute 2 (Name 2 ''sys'') ''modules'') (Other []),
                Subscript 2 (Attribute 2 (Name 2 ''sys'') ''modules'') (Other [])]
        (Other [])]"

definition chained_sysmodules :: src_file where
  "chained_sysmodules =
     \<lparr>abs_path = ''/repo/pkg/chained.py'', rel_parts = Some [''pkg'', ''chained.py''],
      text_lines = [''import sys'', ''sys.modules[\"a\"] = sys.modules[\"b\"] = None''],
      parsed = Some chained_tree\<rparr>"

text \<open>The dedup key of a finding within its file, and the findings with a given key.\<close>

definition finding_keys :: "finding list \<Rightarrow> (int \<times> string) list" where
  "finding_keys fs = map (\<lambda>f. (line f, category f)) fs"

definition with_key :: "int \<Rightarrow> string \<Rightarrow> finding list \<Rightarrow> finding list" where
  "with_key ln cat fs = filter (\<lambda>f. line f = ln \<and> category f = cat) fs"

text \<open>\<^verbatim>\<open>from somepkg import thing\<close> / \<^verbatim>\<open>thing = None\<close>\<close>

definition rebind_tree :: ast where
  "rebind_tree = Other
     [ImportFrom 1 (Some ''somepkg'') [(''thing'', None)],
      Assign 2 [Name 2 ''thing''] (Other [])]"

definition rebind_file :: src_file where
  "rebind_file =
     \<lparr>abs_path = ''/repo/pkg/rebind.py'', rel_parts = Some [''pkg'', ''rebind.py''],
      text_lines = [''from somepkg import thing'', ''thing = None''],
      parsed = Some rebind_tree\<rparr>"

text \<open>\<^verbatim>\<open>import requests\<close> / (empty line) / \<^verbatim>\<open>requests.api = object()\<close>\<close>

definition requests_tree :: ast where
  "requests_tree = Other
     [Import 1 [(''requests'', None)],
      Assign 3 [Attribute 3 (Name 3 ''requests'') ''api''] (Call 3 (Name 3 ''object'') [] [])]"

definition requests_file :: src_file where
  "requests_file =
     \<lparr>abs_path = ''/repo/pkg/patching.py'', rel_parts = Some [''pkg'', ''patching.py''],
      text_lines = [''import requests'', '''', ''requests.api = object()''],
      parsed = Some requests_tree\<rparr>"

text \<open>The scanner of \<open>requests_file\<close> when it reaches the assignment.\<close>

definition requests_scanner :: scanner where
  "requests_scanner =
     \<lparr>src = requests_file, res = resolve requests_tree new_resolver, project_pkgs = {},
      context_lines = 2, scope = [], findings = []\<rparr>"

text \<open>\<^verbatim>\<open>import a.b.a\<close> / \<^verbatim>\<open>a.attr = 1\<close>, and the same with \<^verbatim>\<open>import a.b.c\<close>.\<close>

definition aba_tree :: ast where
  "aba_tree = Other
     [Import 1 [(''a.b.a'', None)],
      Assign 2 [Attribute 2 (Name 2 ''a'') ''attr''] (Other [])]"

definition import_aba :: src_file where
  "import_aba =
     \<lparr>abs_path = ''/repo/pkg/aba.py'', rel_parts = Some [''pkg'', ''aba.py''],
      text_lines = [''import a.b.a'', ''a.attr = 1''],
      parsed = Some aba_tree\<rparr>"

definition abc_tree :: ast where
  "abc_tree = Other
     [Import 1 [(''a.b.c'', None)],
      Assign 2 [Attribute 2 (Name 2 ''a'') ''attr''] (Other [])]"

definition import_abc :: src_file where
  "import_abc =
     \<lparr>abs_path = ''/repo/pkg/abc.py'', rel_parts = Some [''pkg'', ''abc.py''],
      text_lines = [''import a.b.c'', ''a.attr = 1''],
      parsed = Some abc_tree\<rparr>"

definition abc_scanner :: scanner where
  "abc_scanner =
     \<lparr>src = import_abc, res = visit_Import 1 [(''a.b.c'', None)] new_resolver, project_pkgs = {},
      context_lines = 2, scope = [], findings = []\<rparr>"

text \<open>The findings a handler appended: those of \<open>sc'\<close> beyond those of \<open>sc\<close>.\<close>

definition emitted :: "scanner \<Rightarrow> scanner \<Rightarrow> finding list" where
  "emitted sc sc' = drop (length (findings sc)) (findings sc')"

definition finding_key4 :: "finding \<Rightarrow> int \<times> string \<times> string option \<times> bool" where
  "finding_key4 f = (line f, category f, import_base f, is_module_scope f)"

section \<open>Properties\<close>

subsection \<open>Scope of the findings\<close>

text \<open>The invariant of the tree-based pass: whenever a method of the scanner runs, the scope
  stack is empty and every finding collected so far is tagged as module scope.\<close>

definition module_inv :: "scanner \<Rightarrow> bool" where
  "module_inv sc = (scope sc = [] \<and> (\<forall>f\<in>set (findings sc). is_module_scope f))"

lemma fold_same:
  assumes "\<And>x s. x \<in> set xs \<Longrightarrow> f x s = s"
  shows "fold f xs s = s"
  using assms by (induction xs arbitrary: s) auto

lemma scope_visit_balanced: "scope_visit node stack = stack"
proof (induction node stack rule: scope_visit.induct)
  case (1 node stack)
  show ?case
  proof (cases "scope_entry node")
    case None
    have "fold scope_visit (children node) stack = stack"
      by (rule fold_same) (rule 1(1) [OF None])
    with None show ?thesis by (subst scope_visit.simps) simp
  next
    case (Some e)
    have "fold scope_visit (children node) (stack @ [e]) = stack @ [e]"
      by (rule fold_same) (rule 1(2) [OF Some])
    with Some show ?thesis by (subst scope_visit.simps) simp
  qed
qed

lemma current_Nil: "current [] = (True, None, None)"
  by (simp add: current_def)

lemma make_finding_sel [simp]:
  "line (make_finding sf n ln cat base ms fn cl) = ln"
  "category (make_finding sf n ln cat base ms fn cl) = cat"
  "import_base (make_finding sf n ln cat base ms fn cl) = base"
  "is_module_scope (make_finding sf n ln cat base ms fn cl) = ms"
  "function_name (make_finding sf n ln cat base ms fn cl) = fn"
  "class_name (make_finding sf n ln cat base ms fn cl) = cl"
  by (simp_all add: make_finding_def Let_def)

lemma add_finding_sel [simp]:
  "scope (add_finding ln cat base ms fn cl sc) = scope sc"
  "res (add_finding ln cat base ms fn cl sc) = res sc"
  "src (add_finding ln cat base ms fn cl sc) = src sc"
  "project_pkgs (add_finding ln cat base ms fn cl sc) = project_pkgs sc"
  "findings (add_finding ln cat base ms fn cl sc) =
     findings sc @ [make_finding (src sc) DEFAULT_CONTEXT_LINES ln cat base ms fn cl]"
  by (simp_all add: add_finding_def)

lemma add_finding_inv: "module_inv sc \<Longrightarrow> module_inv (add_finding ln cat base True fn cl sc)"
  by (simp add: module_inv_def)

lemma foldl_inv:
  assumes "P s" and "\<And>s x. P s \<Longrightarrow> P (f s x)"
  shows "P (foldl f s xs)"
  using assms by (induction xs arbitrary: s) auto

lemma fold_inv:
  assumes "P s" and "\<And>s x. x \<in> set xs \<Longrightarrow> P s \<Longrightarrow> P (f x s)"
  shows "P (fold f xs s)"
  using assms by (induction xs arbitrary: s) auto

lemma handle_target_inv: "module_inv sc \<Longrightarrow> module_inv (handle_target ln True fn cl sc t)"
  by (simp add: handle_target_def Let_def add_finding_inv split: option.splits)

lemma handle_assignment_inv:
  assumes "module_inv sc"
  shows "module_inv (handle_assignment node ln sc)"
proof -
  from assms have "current (scope sc) = (True, None, None)"
    by (simp add: module_inv_def current_Nil)
  then have "handle_assignment node ln sc =
      foldl (handle_target ln True None None) sc (assignment_targets node)"
    by (simp add: handle_assignment_def)
  moreover have "module_inv (foldl (handle_target ln True None None) sc (assignment_targets node))"
    using assms by (rule foldl_inv [where P = module_inv]) (rule handle_target_inv)
  ultimately show ?thesis by simp
qed

lemma visit_Call_inv:
  assumes "module_inv sc"
  shows "module_inv (visit_Call node sc)"
proof (cases node)
  case (Call ln func args kws)
  from assms have c: "current (scope sc) = (True, None, None)"
    by (simp add: module_inv_def current_Nil)
  show ?thesis
    unfolding Call
    by (auto simp: c Let_def split: prod.splits intro!: add_finding_inv assms)
qed (simp_all add: assms)

lemma visit_Delete_inv:
  assumes "module_inv sc"
  shows "module_inv (visit_Delete ln ts sc)"
  unfolding visit_Delete_def
  using assms
  by (rule foldl_inv [where P = module_inv]) (auto simp: module_inv_def current_Nil)

lemma visit_decorators_inv:
  assumes "module_inv sc"
  shows "module_inv (visit_decorators ds fn cl sc)"
proof -
  have "module_inv (foldl (\<lambda>s dec. if is_patch_decorator dec (res sc)
            then add_finding (lineno dec) CATEGORY_TEST_PATCH_MISUSE (Some ''unittest'')
                   True fn cl s
            else s) sc ds)"
    using assms by (rule foldl_inv [where P = module_inv]) (simp add: add_finding_inv)
  with assms show ?thesis by (simp add: visit_decorators_def)
qed

lemma visit_method_inv: "module_inv sc \<Longrightarrow> module_inv (visit_method node sc)"
  by (cases node)
    (simp_all add: handle_assignment_inv visit_Call_inv visit_Delete_inv visit_decorators_inv
       del: visit_Call.simps)

lemma visit_inv: "module_inv sc \<Longrightarrow> module_inv (visit node sc)"
proof (induction node sc rule: visit.induct)
  case (1 node sc)
  let ?sc = "visit_method node sc"
  have m: "module_inv ?sc" using 1(2) by (rule visit_method_inv)
  show ?case
  proof (cases "is_def node")
    case True
    with m show ?thesis
      by (subst visit.simps) (simp add: Let_def scope_visit_balanced module_inv_def)
  next
    case False
    have "module_inv (fold visit (children node) ?sc)"
      using m by (rule fold_inv [where P = module_inv]) (rule 1(1) [OF refl False])
    with False show ?thesis by (subst visit.simps) (simp add: Let_def)
  qed
qed

lemma tree_pass_module_scope: "f \<in> set (tree_pass sf pkgs n tree) \<Longrightarrow> is_module_scope f"
proof -
  let ?sc = "\<lparr>src = sf, res = resolve tree new_resolver, project_pkgs = pkgs,
              context_lines = n, scope = [], findings = []\<rparr>"
  have "module_inv ?sc" by (simp add: module_inv_def)
  then have "module_inv (visit tree ?sc)" by (rule visit_inv)
  then show "f \<in> set (tree_pass sf pkgs n tree) \<Longrightarrow> is_module_scope f"
    by (simp add: module_inv_def tree_pass_def)
qed

lemma fallback_module_scope: "f \<in> set (fallback_findings sf n fs) \<Longrightarrow> is_module_scope f"
  by (auto simp: fallback_findings_def Let_def)

text \<open>
  C1. Every finding that \<^verbatim>\<open>scan_file\<close> returns has \<^verbatim>\<open>is_module_scope = True\<close>: the
  scanner hands definition nodes to the scope tracker, whose traversal leaves the stack as
  it found it and adds no finding, so every handler of the scanner runs on the empty stack;
  decorator findings and fallback findings are tagged \<open>True\<close> outright.
\<close>

theorem scan_file_module_scope:
  assumes "snd (scan_file sf pkgs n strict) = Inr fs" and "f \<in> set fs"
  shows "is_module_scope f"
  using assms
  by (auto simp: scan_file_def Let_def split: option.splits if_splits
           dest: tree_pass_module_scope fallback_module_scope)

text \<open>The assignment inside \<^verbatim>\<open>install\<close> is reported by the fallback only, as module scope.\<close>

theorem scan_file_module_scope_witness:
  "map category (scan_findings nested_sysmodules {} 2 False) = [CATEGORY_SYS_MODULES]
   \<and> map is_module_scope (scan_findings nested_sysmodules {} 2 False) = [True]"
proof -
  let ?fs = "scan_findings nested_sysmodules {} 2 False"
  have r: "snd (scan_file nested_sysmodules {} 2 False) = Inr ?fs"
    by (simp add: scan_file_def scan_findings_def nested_sysmodules_def Let_def)
  have c: "map category ?fs = [CATEGORY_SYS_MODULES]"
    by code_simp
  then obtain f where f: "?fs = [f]"
    by auto
  have "is_module_scope f"
    using scan_file_module_scope [OF r, of f] f by simp
  with f c show ?thesis
    by simp
qed

subsection \<open>Risk tiers\<close>

text \<open>
  C5. The classifier's rule table: HIGH exactly for \<^verbatim>\<open>sys_modules_assignment\<close> or
  \<^verbatim>\<open>import_time_side_effect\<close> outside tests and for module-scope
  \<^verbatim>\<open>global_env_mutation\<close> outside tests; MODERATE exactly for
  \<^verbatim>\<open>attribute_reassignment_on_import\<close> outside tests and for \<^verbatim>\<open>global_env_mutation\<close>
  in tests; SAFE in every other case, so each finding gets exactly one of the three tiers;
  \<^verbatim>\<open>attribute_reassignment_on_import\<close> in tests and \<^verbatim>\<open>test_patch_misuse\<close> with any
  flags are SAFE.
\<close>

theorem classify_table:
  "(classify f = ''HIGH'' \<longleftrightarrow>
      (r_category f \<in> {''sys_modules_assignment'', ''import_time_side_effect''} \<and> \<not> r_is_test f)
      \<or> (r_category f = ''global_env_mutation'' \<and> \<not> r_is_test f \<and> r_is_module_scope f))
   \<and> (classify f = ''MODERATE'' \<longleftrightarrow>
      (r_category f = ''attribute_reassignment_on_import'' \<and> \<not> r_is_test f)
      \<or> (r_category f = ''global_env_mutation'' \<and> r_is_test f))
   \<and> (classify f = ''SAFE'' \<longleftrightarrow>
      \<not> ((r_category f \<in> {''sys_modules_assignment'', ''import_time_side_effect''} \<and> \<not> r_is_test f)
          \<or> (r_category f = ''global_env_mutation'' \<and> \<not> r_is_test f \<and> r_is_module_scope f))
      \<and> \<not> ((r_category f = ''attribute_reassignment_on_import'' \<and> \<not> r_is_test f)
          \<or> (r_category f = ''global_env_mutation'' \<and> r_is_test f)))
   \<and> classify f \<in> {''HIGH'', ''MODERATE'', ''SAFE''}
   \<and> classify (f\<lparr>r_category := ''attribute_reassignment_on_import'', r_is_test := True\<rparr>) = ''SAFE''
   \<and> classify (f\<lparr>r_category := ''test_patch_misuse''\<rparr>) = ''SAFE''"
  by (auto simp: classify_def)

subsection \<open>Nested mutations\<close>

text \<open>
  C2. The claim: every file with a \<^verbatim>\<open>sys.modules[...] = ...\<close> assignment, at any scope,
  gets a \<^verbatim>\<open>sys_modules_assignment\<close> finding. The code at two such files: the assignment
  inside \<^verbatim>\<open>install\<close> is never seen by the tree-based pass; with a subscript in the key
  the fallback pattern does not match either, and in strict mode there is no fallback. The
  same assignment at module scope is reported.
\<close>

theorem sys_modules_nested_missed:
  "snd (scan_file nested_sysmodules_index {} 2 False) = Inr []
   \<and> snd (scan_file nested_sysmodules {} 2 True) = Inr []
   \<and> map category (scan_findings c_sysmodules {} 2 True) = [CATEGORY_SYS_MODULES]"
  by code_simp

text \<open>
  C3. The claim: every file with an \<^verbatim>\<open>os.environ[...] = ...\<close> assignment or an
  \<^verbatim>\<open>os.environ.update(...)\<close> / \<^verbatim>\<open>os.environ.setdefault(...)\<close> call, at any scope,
  gets a \<^verbatim>\<open>global_env_mutation\<close> finding. The code at a file with the call inside a
  function: no finding, since the tree-based pass does not enter the function and no
  fallback pattern covers the calls. The same call at module scope is reported.
\<close>

theorem environ_update_nested_missed:
  "snd (scan_file nested_environ_update {} 2 False) = Inr []
   \<and> map category (scan_findings f_env_mut {} 2 True) = [CATEGORY_GLOBAL_ENV, CATEGORY_GLOBAL_ENV]"
  by code_simp

subsection \<open>Deduplication of fallback hits\<close>

text \<open>
  C6 as stated fails: for a chained assignment the tree-based pass emits one finding per
  target, so the key \<open>(2, sys_modules_assignment)\<close>, flagged by both passes, occurs twice
  in the output.
\<close>

theorem dedup_counterexample:
  "(2, CATEGORY_SYS_MODULES) \<in> set (finding_keys (tree_pass chained_sysmodules {} 2 chained_tree))
   \<and> (2, CATEGORY_SYS_MODULES) \<in> set (regex_fallback (text_lines chained_sysmodules))
   \<and> length (with_key 2 CATEGORY_SYS_MODULES (scan_findings chained_sysmodules {} 2 False)) = 2"
  by code_simp

lemma scan_findings_parsed:
  "parsed sf = Some tree \<Longrightarrow>
   scan_findings sf pkgs n strict =
     (if strict then tree_pass sf pkgs n tree
      else tree_pass sf pkgs n tree @ fallback_findings sf n (tree_pass sf pkgs n tree))"
  by (simp add: scan_findings_def scan_file_def Let_def)

lemma fallback_no_seen_key:
  assumes "(ln, cat) \<in> set (finding_keys fs)"
  shows "with_key ln cat (fallback_findings sf n fs) = []"
proof -
  have "\<not> (line g = ln \<and> category g = cat)" if "g \<in> set (fallback_findings sf n fs)" for g
  proof -
    from that obtain h where h: "h \<in> set (regex_fallback (text_lines sf))"
        "h \<notin> set (finding_keys fs)" "g = make_finding sf n (fst h) (snd h) None True None None"
      by (auto simp: fallback_findings_def finding_keys_def Let_def)
    with assms show ?thesis
      by (cases h) auto
  qed
  then show ?thesis
    by (auto simp: with_key_def filter_empty_conv)
qed

text \<open>
  C6, amended. When the tree-based pass has a finding at \<open>(line, category)\<close>, a fallback
  hit at that key is discarded: the findings of the output with that key are exactly those
  of the tree-based pass, at least one, and exactly one when the tree-based pass emitted one.
\<close>

theorem dedup_keeps_tree_findings:
  assumes "parsed sf = Some tree"
    and "(ln, cat) \<in> set (finding_keys (tree_pass sf pkgs n tree))"
  shows "with_key ln cat (scan_findings sf pkgs n strict) = with_key ln cat (tree_pass sf pkgs n tree)
         \<and> with_key ln cat (tree_pass sf pkgs n tree) \<noteq> []"
proof -
  have "with_key ln cat (fallback_findings sf n (tree_pass sf pkgs n tree)) = []"
    using assms(2) by (rule fallback_no_seen_key)
  then have "with_key ln cat (scan_findings sf pkgs n strict) = with_key ln cat (tree_pass sf pkgs n tree)"
    using scan_findings_parsed [OF assms(1), of pkgs n strict]
    by (simp add: with_key_def)
  moreover have "with_key ln cat (tree_pass sf pkgs n tree) \<noteq> []"
    using assms(2) by (auto simp: with_key_def finding_keys_def filter_empty_conv)
  ultimately show ?thesis by simp
qed

theorem dedup_keeps_tree_findings_witness:
  "parsed c_sysmodules = Some (Other
       [Import 2 [(''sys'', None)],
        Assign 3 [Subscript 3 (Attribute 3 (Name 3 ''sys'') ''modules'') (Other [])]
          (Call 3 (Name 3 ''object'') [] [])])
   \<and> (3, CATEGORY_SYS_MODULES) \<in> set (regex_fallback (text_lines c_sysmodules))
   \<and> length (with_key 3 CATEGORY_SYS_MODULES (scan_findings c_sysmodules {} 2 False)) = 1"
proof -
  let ?t = "Other
       [Import 2 [(''sys'', None)],
        Assign 3 [Subscript 3 (Attribute 3 (Name 3 ''sys'') ''modules'') (Other [])]
          (Call 3 (Name 3 ''object'') [] [])]"
  have p: "parsed c_sysmodules = Some ?t"
    by (simp add: c_sysmodules_def fixture_def)
  have k: "(3, CATEGORY_SYS_MODULES) \<in> set (finding_keys (tree_pass c_sysmodules {} 2 ?t))"
    by code_simp
  have r: "(3, CATEGORY_SYS_MODULES) \<in> set (regex_fallback (text_lines c_sysmodules))"
    by code_simp
  have l: "length (with_key 3 CATEGORY_SYS_MODULES (tree_pass c_sysmodules {} 2 ?t)) = 1"
    by code_simp
  from dedup_keeps_tree_findings [OF p k, of False] l p r show ?thesis
    by simp
qed

subsection \<open>Self test\<close>

lemma scan_file_nonstrict:
  "snd (scan_file sf pkgs n False) = Inr (scan_findings sf pkgs n False)"
  by (simp add: scan_file_def scan_findings_def Let_def split: option.splits)

lemma self_test_scan_eq:
  "self_test_scan files =
     Inr (concat (map (\<lambda>sf. scan_findings sf {} DEFAULT_CONTEXT_LINES False) files))"
  by (induction files) (simp_all add: scan_file_nonstrict)

lemma fixture_categories:
  "map category (scan_findings a_modscope_assign {} DEFAULT_CONTEXT_LINES False)
     = [CATEGORY_ATTRIBUTE_REASSIGNMENT, CATEGORY_IMPORT_TIME]"
  "map category (scan_findings b_setattr {} DEFAULT_CONTEXT_LINES False) = [CATEGORY_SETATTR]"
  "map category (scan_findings c_sysmodules {} DEFAULT_CONTEXT_LINES False) = [CATEGORY_SYS_MODULES]"
  "map category (scan_findings d_builtins {} DEFAULT_CONTEXT_LINES False) = [CATEGORY_BUILTINS]"
  "map category (scan_findings e_patch_misuse {} DEFAULT_CONTEXT_LINES False)
     = [CATEGORY_TEST_PATCH_MISUSE, CATEGORY_TEST_PATCH_MISUSE]"
  "map category (scan_findings f_env_mut {} DEFAULT_CONTEXT_LINES False)
     = [CATEGORY_GLOBAL_ENV, CATEGORY_GLOBAL_ENV]"
  "map category (scan_findings g_singleton_rebind {} DEFAULT_CONTEXT_LINES False)
     = [CATEGORY_SINGLETON_REBIND]"
  "map category (scan_findings h_from_import_attr {} DEFAULT_CONTEXT_LINES False)
     = [CATEGORY_ATTRIBUTE_REASSIGNMENT, CATEGORY_IMPORT_TIME]"
  by code_simp+

lemma fixture_category_set:
  assumes "set files = set sample_files"
  shows "expected \<subseteq> set (map category
            (concat (map (\<lambda>sf. scan_findings sf {} DEFAULT_CONTEXT_LINES False) files)))"
proof -
  have "set (map category (concat (map (\<lambda>sf. scan_findings sf {} DEFAULT_CONTEXT_LINES False) files)))
        = (\<Union>sf\<in>set files. set (map category (scan_findings sf {} DEFAULT_CONTEXT_LINES False)))"
    by auto
  also have "\<dots> = (\<Union>sf\<in>set sample_files.
                      set (map category (scan_findings sf {} DEFAULT_CONTEXT_LINES False)))"
    by (simp only: assms)
  also have "\<dots> = {CATEGORY_ATTRIBUTE_REASSIGNMENT, CATEGORY_IMPORT_TIME, CATEGORY_SETATTR,
                     CATEGORY_SYS_MODULES, CATEGORY_BUILTINS, CATEGORY_TEST_PATCH_MISUSE,
                     CATEGORY_GLOBAL_ENV, CATEGORY_SINGLETON_REBIND}"
    unfolding sample_files_def by (simp only: list.set UN_insert UN_empty fixture_categories) auto
  finally show ?thesis
    by (simp add: expected_def)
qed

text \<open>
  C8. The self test returns 2 when one of the seven expected categories is absent from the
  findings of the scanned fixture files and 0 otherwise; on the bundled fixtures, in
  whatever order the directory walk yields them, all seven are found and the result is 0.
\<close>

theorem self_test_exit_code:
  "run_self_test_on files =
     Inr (if expected \<subseteq> set (map category
               (concat (map (\<lambda>sf. scan_findings sf {} DEFAULT_CONTEXT_LINES False) files)))
          then 0 else 2)
   \<and> (set files = set sample_files \<longrightarrow> run_self_test_on files = Inr 0)
   \<and> run_self_test = Inr 0"
proof -
  have a: "run_self_test_on fs =
     Inr (if expected \<subseteq> set (map category
               (concat (map (\<lambda>sf. scan_findings sf {} DEFAULT_CONTEXT_LINES False) fs)))
          then 0 else 2)" for fs
    by (auto simp: run_self_test_on_def self_test_scan_eq self_test_verdict_def Let_def)
  have b: "run_self_test_on fs = Inr 0" if "set fs = set sample_files" for fs
    using fixture_category_set [OF that] by (simp add: a)
  have c: "run_self_test = Inr 0"
    unfolding run_self_test_def by (rule b) simp
  show ?thesis
    by (intro conjI impI a b c)
qed

theorem self_test_exit_code_witness:
  "set (rev sample_files) = set sample_files \<and> run_self_test_on (rev sample_files) = Inr 0"
proof -
  have h: "set (rev sample_files) = set sample_files"
    by simp
  from self_test_exit_code [of "rev sample_files"]
  have "set (rev sample_files) = set sample_files \<longrightarrow> run_self_test_on (rev sample_files) = Inr 0"
    by (rule conjunct1 [OF conjunct2])
  with h show ?thesis
    by blast
qed

subsection \<open>Import-time side effects\<close>

text \<open>
  C4 as stated fails for the bare rebinding of a name bound by \<^verbatim>\<open>from X import name\<close>:
  one line after the import the tree-based pass emits the
  \<^verbatim>\<open>attribute_reassignment_on_import\<close> finding alone.
\<close>

theorem import_time_counterexample:
  "map finding_key4 (tree_pass rebind_file {} 2 rebind_tree)
     = [(2, CATEGORY_ATTRIBUTE_REASSIGNMENT, Some ''somepkg'', True)]
   \<and> near_import 2 (import_lines (resolve rebind_tree new_resolver)) 5"
  by code_simp

lemma attr_target_emitted:
  assumes "is_Attribute t"
    and "f \<in> set (emitted sc (handle_target ln True fn cl sc t))"
    and "category f = CATEGORY_ATTRIBUTE_REASSIGNMENT"
    and "near_import ln (import_lines (res sc)) 5"
  shows "\<exists>g\<in>set (emitted sc (handle_target ln True fn cl sc t)).
           category g = CATEGORY_IMPORT_TIME \<and> line g = line f
           \<and> import_base g = import_base f \<and> is_module_scope g"
  using assms
  by (cases t)
    (auto simp: emitted_def handle_target_def Let_def category_defs
          split: option.splits if_splits)

lemma rebind_emitted:
  "CATEGORY_IMPORT_TIME \<notin> set (map category (emitted sc (handle_target ln ms fn cl sc (Name l i))))"
  by (auto simp: emitted_def handle_target_def Let_def category_defs singleton_base_def
                 attr_import_base_def truthy_def
           split: option.splits if_splits)

text \<open>
  C4, amended. When the loop body of \<^verbatim>\<open>_handle_assignment\<close>, at module scope, emits an
  \<^verbatim>\<open>attribute_reassignment_on_import\<close> finding for an attribute target and the line is
  within 5 lines of an import line, it also emits an \<^verbatim>\<open>import_time_side_effect\<close>
  finding with the same line and import base, tagged module scope; for a bare name target
  it never emits \<^verbatim>\<open>import_time_side_effect\<close>. For \<^verbatim>\<open>import requests\<close> followed two lines
  later by \<^verbatim>\<open>requests.api = object()\<close> the scan gives exactly one finding of each of the
  two categories, both with import base \<^verbatim>\<open>requests\<close> and module scope.
\<close>

theorem attr_reassignment_import_time:
  assumes "is_Attribute t"
    and "f \<in> set (emitted sc (handle_target ln True fn cl sc t))"
    and "category f = CATEGORY_ATTRIBUTE_REASSIGNMENT"
    and "near_import ln (import_lines (res sc)) 5"
  shows "(\<exists>g\<in>set (emitted sc (handle_target ln True fn cl sc t)).
            category g = CATEGORY_IMPORT_TIME \<and> line g = line f
            \<and> import_base g = import_base f \<and> is_module_scope g)
         \<and> CATEGORY_IMPORT_TIME \<notin>
             set (map category (emitted sc (handle_target ln ms fn' cl' sc (Name l i))))
         \<and> map finding_key4 (scan_findings requests_file {} 2 False)
            = [(3, CATEGORY_ATTRIBUTE_REASSIGNMENT, Some ''requests'', True),
               (3, CATEGORY_IMPORT_TIME, Some ''requests'', True)]"
proof -
  have "map finding_key4 (scan_findings requests_file {} 2 False)
            = [(3, CATEGORY_ATTRIBUTE_REASSIGNMENT, Some ''requests'', True),
               (3, CATEGORY_IMPORT_TIME, Some ''requests'', True)]"
    by code_simp
  with attr_target_emitted [OF assms] rebind_emitted show ?thesis
    by blast
qed

theorem attr_reassignment_import_time_witness:
  "is_Attribute (Attribute 3 (Name 3 ''requests'') ''api'')
   \<and> near_import 3 (import_lines (res requests_scanner)) 5
   \<and> map category (emitted requests_scanner
        (handle_target 3 True None None requests_scanner (Attribute 3 (Name 3 ''requests'') ''api'')))
      = [CATEGORY_ATTRIBUTE_REASSIGNMENT, CATEGORY_IMPORT_TIME]"
proof -
  let ?t = "Attribute 3 (Name 3 ''requests'') ''api''"
  let ?e = "emitted requests_scanner (handle_target 3 True None None requests_scanner ?t)"
  have a: "is_Attribute ?t" by simp
  have n: "near_import 3 (import_lines (res requests_scanner)) 5" by code_simp
  have e: "map category ?e = [CATEGORY_ATTRIBUTE_REASSIGNMENT, CATEGORY_IMPORT_TIME]" by code_simp
  then obtain f g where fg: "?e = [f, g]" "category f = CATEGORY_ATTRIBUTE_REASSIGNMENT"
    by (auto simp: map_eq_Cons_conv)
  then have m: "f \<in> set ?e" by simp
  from attr_reassignment_import_time [OF a m fg(2) n]
  have "\<exists>g\<in>set ?e. category g = CATEGORY_IMPORT_TIME" by blast
  with a n e show ?thesis by simp
qed

subsection \<open>Dotted imports\<close>

text \<open>
  C10 as stated fails when the first and the last component of the dotted path coincide:
  after \<^verbatim>\<open>import a.b.a\<close> the alias table maps \<^verbatim>\<open>a\<close>, and \<^verbatim>\<open>a.attr = 1\<close> is
  reported.
\<close>

theorem dotted_import_counterexample:
  "alias_to_module (resolve aba_tree new_resolver) ''a'' = Some ''a.b.a''
   \<and> map finding_key4 (tree_pass import_aba {} 2 aba_tree)
      = [(2, CATEGORY_ATTRIBUTE_REASSIGNMENT, Some ''a'', True),
         (2, CATEGORY_IMPORT_TIME, Some ''a'', True)]"
  by code_simp

lemma visit_Import_single:
  "alias_to_module (visit_Import l [(m, None)] r)
     = (alias_to_module r)(last (split_on CHR ''.'' m) \<mapsto> m)"
  by (simp add: visit_Import_def import_alias_def or_else_def)

lemma unresolved_attr_no_finding:
  assumes "alias_to_module (res sc) a = None"
  shows "CATEGORY_ATTRIBUTE_REASSIGNMENT \<notin> set (map category
           (emitted sc (handle_assignment (Assign l2 [Attribute l3 (Name l4 a) attr] v) l2 sc)))"
  using assms
  by (auto simp: emitted_def handle_assignment_def handle_target_def Let_def category_defs
                 attr_import_base_def is_alias_external_def truthy_def
           split: option.splits if_splits prod.splits)

text \<open>
  C10, amended. A plain import of a module path \<open>m\<close> without alias adds exactly one entry
  to the alias table: the last dotted component, mapped to \<open>m\<close>. A name \<open>a\<close> that differs
  from that component and had no entry before has none afterwards, and then the assignment
  \<^verbatim>\<open>a.attr = ...\<close> produces no \<^verbatim>\<open>attribute_reassignment_on_import\<close> finding.
\<close>

theorem dotted_import_no_alias:
  assumes "alias_to_module r a = None"
    and "a \<noteq> last (split_on CHR ''.'' m)"
    and "res sc = visit_Import l [(m, None)] r"
  shows "alias_to_module (res sc) = (alias_to_module r)(last (split_on CHR ''.'' m) \<mapsto> m)
         \<and> alias_to_module (res sc) a = None
         \<and> CATEGORY_ATTRIBUTE_REASSIGNMENT \<notin> set (map category
             (emitted sc (handle_assignment (Assign l2 [Attribute l3 (Name l4 a) attr] v) l2 sc)))"
proof -
  have t: "alias_to_module (res sc) = (alias_to_module r)(last (split_on CHR ''.'' m) \<mapsto> m)"
    by (simp add: assms(3) visit_Import_single)
  with assms(1,2) have n: "alias_to_module (res sc) a = None"
    by simp
  from t n unresolved_attr_no_finding [OF n] show ?thesis
    by simp
qed

theorem dotted_import_no_alias_witness:
  "alias_to_module new_resolver ''a'' = None
   \<and> ''a'' \<noteq> last (split_on CHR ''.'' ''a.b.c'')
   \<and> res abc_scanner = visit_Import 1 [(''a.b.c'', None)] new_resolver
   \<and> alias_to_module (res abc_scanner) ''c'' = Some ''a.b.c''
   \<and> alias_to_module (res abc_scanner) ''a'' = None
   \<and> tree_pass import_abc {} 2 abc_tree = []"
proof -
  have h1: "alias_to_module new_resolver ''a'' = None"
    by (simp add: new_resolver_def)
  have h2: "''a'' \<noteq> last (split_on CHR ''.'' ''a.b.c'')"
    by simp
  have h3: "res abc_scanner = visit_Import 1 [(''a.b.c'', None)] new_resolver"
    by (simp add: abc_scanner_def)
  have c: "alias_to_module (res abc_scanner) ''c'' = Some ''a.b.c''"
    using dotted_import_no_alias [OF h1 h2 h3] by simp
  have a: "alias_to_module (res abc_scanner) ''a'' = None"
    using dotted_import_no_alias [OF h1 h2 h3] by (rule conjunct1 [OF conjunct2])
  have e: "tree_pass import_abc {} 2 abc_tree = []"
    by code_simp
  from h1 h2 h3 c a e show ?thesis
    by simp
qed

end
